theory Spec2Isabelle
  imports Complex_Main
begin

section \<open>Python values shared by the functions of \<open>to_dask.py\<close>\<close>

text \<open>
  Exceptions are values. \<open>AssertionError\<close> carries the expression the failing
  \<^verbatim>\<open>assert\<close> reports; \<open>ValueError\<close> carries which message it is; \<open>Raised\<close> is an
  exception that comes out of an external collaborator (the Reader, rasterio's
  \<^verbatim>\<open>from_bounds\<close>, numpy's conversion of a scalar).
\<close>

record slice =
  start :: int
  stop :: int

datatype assertion = Assert_slices "slice list" | Assert_size nat

datatype value_error =
  Incompatible_fill_value | Chunks_do_not_add_up | Not_size_one | Cannot_broadcast

datatype 'exc error =
  AssertionError assertion
  | ValueError value_error
  | ZeroDivisionError
  | IndexError
  | WindowError
  | Raised 'exc

text \<open>Indexing a Python tuple: a negative index counts from the end, an index out of
  range raises \<open>IndexError\<close>.\<close>

definition py_index :: "'a list \<Rightarrow> int \<Rightarrow> 'exc error + 'a" where
  "py_index xs i =
     (if i < - int (length xs) \<or> int (length xs) \<le> i then Inl IndexError
      else if i < 0 then Inr (xs ! nat (i + int (length xs)))
      else Inr (xs ! nat i))"

section \<open>numpy arrays\<close>

text \<open>
  An array is its dtype, its shape and its elements in row-major order. The dtype
  \<open>np_object\<close> is numpy's \<^verbatim>\<open>object\<close>; every other dtype is a value of the
  parameter type. \<open>wf_ndarray\<close> is numpy's invariant that the shape counts the elements.
\<close>

datatype 'd np_dtype = np_object | np_dtype 'd

record ('d, 'a) ndarray =
  arr_dtype :: "'d np_dtype"
  arr_shape :: "nat list"
  arr_data :: "'a list"

definition wf_ndarray :: "('d, 'a) ndarray \<Rightarrow> bool" where
  "wf_ndarray arr = (length (arr_data arr) = prod_list (arr_shape arr))"

text \<open>\<^verbatim>\<open>arr.size\<close>: the product of the shape.\<close>

definition ndarray_size :: "('d, 'a) ndarray \<Rightarrow> nat" where
  "ndarray_size arr = prod_list (arr_shape arr)"

text \<open>\<^verbatim>\<open>arr.item()\<close>: the one element, \<open>ValueError\<close> for an array that has not exactly one.\<close>

definition item :: "('d, 'a) ndarray \<Rightarrow> 'exc error + 'a" where
  "item arr = (case arr_data arr of [x] \<Rightarrow> Inr x | _ \<Rightarrow> Inl (ValueError Not_size_one))"

text \<open>\<^verbatim>\<open>np.array(value, dtype)\<close> for a scalar: a zero-dimensional array of one element,
  the value converted by numpy to the dtype. The conversion is numpy's, a parameter
  \<open>cast\<close>; it may raise.\<close>

definition np_array ::
  "('d np_dtype \<Rightarrow> 'fv \<Rightarrow> 'exc + 'v) \<Rightarrow> 'fv \<Rightarrow> 'd np_dtype \<Rightarrow> 'exc error + ('d, 'v) ndarray" where
  "np_array cast v dt =
     (case cast dt v of
        Inl e \<Rightarrow> Inl (Raised e)
      | Inr x \<Rightarrow> Inr \<lparr>arr_dtype = dt, arr_shape = [], arr_data = [x]\<rparr>)"

text \<open>\<^verbatim>\<open>data[None, None]\<close>: two new leading axes of length one, the elements unchanged.\<close>

definition add_outer_dims :: "('d, 'a) ndarray \<Rightarrow> ('d, 'a) ndarray" where
  "add_outer_dims arr = arr\<lparr>arr_shape := 1 # 1 # arr_shape arr\<rparr>"

text \<open>
  \<^verbatim>\<open>np.broadcast_to(arr, shape)\<close>. The array's shape is aligned with the target on the
  right and padded with ones on the left; every axis must have length one or the
  target's length, else numpy raises \<open>ValueError\<close>. An axis of length one is repeated.
\<close>

definition pad_shape :: "nat list \<Rightarrow> nat list \<Rightarrow> nat list" where
  "pad_shape s t = replicate (length t - length s) 1 @ s"

definition broadcastable :: "nat list \<Rightarrow> nat list \<Rightarrow> bool" where
  "broadcastable s t = (length s \<le> length t \<and> list_all2 (\<lambda>a b. a = 1 \<or> a = b) (pad_shape s t) t)"

fun broadcast_data :: "nat list \<Rightarrow> nat list \<Rightarrow> 'a list \<Rightarrow> 'a list" where
  "broadcast_data (s # ss) (t # ts) xs =
     (if s = t
      then concat (map (\<lambda>i. broadcast_data ss ts (take (prod_list ss) (drop (i * prod_list ss) xs)))
                       [0..<s])
      else concat (replicate t (broadcast_data ss ts xs)))"
| "broadcast_data _ _ xs = xs"

definition broadcast_to :: "('d, 'a) ndarray \<Rightarrow> nat list \<Rightarrow> 'exc error + ('d, 'a) ndarray" where
  "broadcast_to arr t =
     (if broadcastable (arr_shape arr) t
      then Inr \<lparr>arr_dtype = arr_dtype arr, arr_shape = t,
                arr_data = broadcast_data (pad_shape (arr_shape arr) t) t (arr_data arr)\<rparr>
      else Inl (ValueError Cannot_broadcast))"

section \<open>rasterio windows\<close>

text \<open>
  A \<open>Window\<close> is \<^verbatim>\<open>Window(col_off, row_off, width, height)\<close>. The window of an output
  chunk is made from integer slices; the window of an asset comes from its bounds and
  has fractional offsets and lengths (floats are read as the real numbers they stand
  for; not-a-number is not represented).
\<close>

record 'n Window =
  col_off :: 'n
  row_off :: 'n
  width :: 'n
  height :: 'n

text \<open>
  \<^verbatim>\<open>Window.from_slices(rows, cols)\<close> with no height and width given and
  \<^verbatim>\<open>boundless=False\<close>: a negative start or stop raises \<open>WindowError\<close>, since it would
  need the raster's height or width; a stop before its start gives length zero.
\<close>

definition from_slices :: "slice \<Rightarrow> slice \<Rightarrow> 'exc error + int Window" where
  "from_slices rows cols =
     (if start rows < 0 \<or> stop rows < 0 \<or> start cols < 0 \<or> stop cols < 0 then Inl WindowError
      else Inr \<lparr>col_off = start cols, row_off = start rows,
                width = max (stop cols - start cols) 0,
                height = max (stop rows - start rows) 0\<rparr>)"

text \<open>\<^verbatim>\<open>windows.shape(window)\<close>: the numbers of rows and columns.\<close>

definition windows_shape :: "int Window \<Rightarrow> nat list" where
  "windows_shape window = [nat (height window), nat (width window)]"

text \<open>\<^verbatim>\<open>toranges\<close>: the row range and the column range of a window. \<open>intersect\<close> puts
  the ranges of all its windows into one float array, which is \<open>as_float\<close> here.\<close>

definition toranges :: "real Window \<Rightarrow> (real \<times> real) \<times> (real \<times> real)" where
  "toranges window =
     ((row_off window, row_off window + height window),
      (col_off window, col_off window + width window))"

definition as_float :: "int Window \<Rightarrow> real Window" where
  "as_float window =
     \<lparr>col_off = of_int (col_off window), row_off = of_int (row_off window),
      width = of_int (width window), height = of_int (height window)\<rparr>"

text \<open>\<^verbatim>\<open>windows.intersect(w1, w2)\<close>: both the row ranges and the column ranges overlap;
  two ranges overlap unless one starts at or after the end of the other.\<close>

definition intersects :: "real \<times> real \<Rightarrow> real \<times> real \<Rightarrow> bool" where
  "intersects range1 range2 = (\<not> (fst range1 \<ge> snd range2 \<or> snd range1 \<le> fst range2))"

definition intersect :: "int Window \<Rightarrow> real Window \<Rightarrow> bool" where
  "intersect w1 w2 =
     (intersects (fst (toranges (as_float w1))) (fst (toranges w2))
      \<and> intersects (snd (toranges (as_float w1))) (snd (toranges w2)))"

section \<open>Readers and reader-table entries\<close>

text \<open>
  Modelled from the spec: the \<open>Reader\<close> protocol (\<^verbatim>\<open>reader_protocol.py\<close> is not among
  the sources). A reader is an opaque capability with a single required operation, read
  given a pixel window; \<open>fetch_raster_window\<close> also uses its attributes \<open>fill_value\<close> and
  \<open>dtype\<close>. Reading is input and output: \<open>read\<close> takes the state of the world (open
  datasets, the files behind the URLs) and returns the new one, with either the block or
  the exception it raised.
\<close>

record ('d, 'fv, 'v, 'exc, 'w) Reader =
  fill_value :: 'fv
  dtype :: "'d np_dtype"
  read :: "int Window \<Rightarrow> 'w \<Rightarrow> ('exc + ('d, 'v) ndarray) \<times> 'w"

text \<open>\<^verbatim>\<open>ReaderTableEntry = Union[tuple[Reader, windows.Window], np.ndarray]\<close>\<close>

datatype ('d, 'fv, 'v, 'exc, 'w) ReaderTableEntry =
  Reader_Window "('d, 'fv, 'v, 'exc, 'w) Reader" "real Window"
  | Fill_Array "('d, 'v) ndarray"

section \<open>The window fetch executor: \<open>fetch_raster_window\<close>\<close>

text \<open>The two assertions, the one cell of the block, the window of the two slices, then
  the three cases: read, fill of a reader that does not overlap, fill of a cell without
  asset.\<close>

definition fetch_raster_window ::
  "('d np_dtype \<Rightarrow> 'fv \<Rightarrow> 'exc + 'v)
   \<Rightarrow> ('d, ('d, 'fv, 'v, 'exc, 'w) ReaderTableEntry) ndarray \<Rightarrow> slice list \<Rightarrow> 'w
   \<Rightarrow> ('exc error + ('d, 'v) ndarray) \<times> 'w" where
  "fetch_raster_window cast reader_entry slices w =
     (if length slices \<noteq> 2 then (Inl (AssertionError (Assert_slices slices)), w)
      else if ndarray_size reader_entry \<noteq> 1
      then (Inl (AssertionError (Assert_size (ndarray_size reader_entry))), w)
      else
        (case item reader_entry of
           Inl e \<Rightarrow> (Inl e, w)
         | Inr entry \<Rightarrow>
             (case from_slices (slices ! 0) (slices ! 1) of
                Inl e \<Rightarrow> (Inl e, w)
              | Inr current_window \<Rightarrow>
                  (case entry of
                     Reader_Window reader asset_window \<Rightarrow>
                       if intersect current_window asset_window
                       then
                         (case read reader current_window w of
                            (Inl e, w') \<Rightarrow> (Inl (Raised e), w')
                          | (Inr blk, w') \<Rightarrow> (Inr (add_outer_dims blk), w'))
                       else
                         (case np_array cast (fill_value reader) (dtype reader) of
                            Inl e \<Rightarrow> (Inl e, w)
                          | Inr fill_arr \<Rightarrow>
                              (broadcast_to fill_arr ([1, 1] @ windows_shape current_window), w))
                   | Fill_Array fill_arr \<Rightarrow>
                       (broadcast_to fill_arr ([1, 1] @ windows_shape current_window), w)))))"

section \<open>The window index: class \<open>Slices\<close>\<close>

text \<open>\<^verbatim>\<open>itertools.accumulate(c, initial=0)\<close>, with the running total as accumulator.\<close>

fun accumulate :: "int list \<Rightarrow> int \<Rightarrow> int list" where
  "accumulate [] acc = [acc]"
| "accumulate (x # xs) acc = acc # accumulate xs (acc + x)"

record Slices =
  starts :: "int list list"

definition Slices_init :: "int list list \<Rightarrow> Slices" where
  "Slices_init chunks = \<lparr>starts = map (\<lambda>c. accumulate c 0) chunks\<rparr>"

text \<open>\<^verbatim>\<open>__getitem__\<close>: the generator over \<^verbatim>\<open>zip(idx, self.starts)\<close>, one axis after the
  other; the first index out of range raises.\<close>

fun getitem_axes :: "(int \<times> int list) list \<Rightarrow> 'exc error + slice list" where
  "getitem_axes [] = Inr []"
| "getitem_axes ((i, st) # rest) =
     (case py_index st i of
        Inl e \<Rightarrow> Inl e
      | Inr lo \<Rightarrow>
          (case py_index st (i + 1) of
             Inl e \<Rightarrow> Inl e
           | Inr hi \<Rightarrow>
               (case getitem_axes rest of
                  Inl e \<Rightarrow> Inl e
                | Inr ss \<Rightarrow> Inr (\<lparr>start = lo, stop = hi\<rparr> # ss))))"

definition getitem :: "Slices \<Rightarrow> int list \<Rightarrow> 'exc error + slice list" where
  "getitem self idx = getitem_axes (zip idx (starts self))"

definition numblocks :: "Slices \<Rightarrow> int list" where
  "numblocks self = map (\<lambda>s. int (length s) - 1) (starts self)"

definition dask_distributed_pack :: "Slices \<Rightarrow> int list list option \<Rightarrow> int list list" where
  "dask_distributed_pack self required_indices = starts self"

definition dask_distributed_unpack :: "int list list \<Rightarrow> Slices" where
  "dask_distributed_unpack state = \<lparr>starts = state\<rparr>"

section \<open>The reader-table builder: \<open>asset_table_to_reader_and_window\<close>\<close>

text \<open>
  Modelled from the spec: the raster spec (\<^verbatim>\<open>raster_spec.py\<close> is not among the
  sources) is the pixel shape (rows, columns) and the affine transform of six numbers
  from pixel space to the coordinate space of the asset bounds. A cell of the asset table
  holds \<open>url\<close> (a string, or absent) and \<open>bounds\<close> (min-x, min-y, max-x, max-y).
  \<open>Resampling\<close> is rasterio's integer enumeration.
\<close>

type_synonym Bbox = "real \<times> real \<times> real \<times> real"
type_synonym Affine = "real \<times> real \<times> real \<times> real \<times> real \<times> real"
type_synonym Resampling = nat

record RasterSpec =
  transform :: Affine
  shape :: "nat \<times> nat"

record asset_entry =
  url :: "string option"
  bounds :: Bbox

text \<open>The reader class is its constructor, called with the keyword arguments \<open>url\<close>,
  \<open>spec\<close>, \<open>resampling\<close>, \<open>dtype\<close>, \<open>fill_value\<close>, \<open>rescale\<close>, \<open>gdal_env\<close> and
  \<open>errors_as_nodata\<close>. rasterio's \<^verbatim>\<open>windows.from_bounds(left, bottom, right, top,
  transform, precision)\<close> is a parameter; it may raise.\<close>

type_synonym ('d, 'fv, 'v, 'exc, 'w, 'env) reader_class =
  "string \<Rightarrow> RasterSpec \<Rightarrow> Resampling \<Rightarrow> 'd np_dtype \<Rightarrow> 'fv \<Rightarrow> bool \<Rightarrow> 'env option \<Rightarrow> 'exc list
   \<Rightarrow> ('d, 'fv, 'v, 'exc, 'w) Reader"

type_synonym 'exc from_bounds_fn =
  "real \<Rightarrow> real \<Rightarrow> real \<Rightarrow> real \<Rightarrow> Affine \<Rightarrow> real \<Rightarrow> 'exc + real Window"

text \<open>The body of the loop: the entry of one cell.\<close>

definition reader_table_entry ::
  "('d np_dtype \<Rightarrow> 'fv \<Rightarrow> 'exc + 'v) \<Rightarrow> 'exc from_bounds_fn \<Rightarrow> asset_entry \<Rightarrow> RasterSpec
   \<Rightarrow> Resampling \<Rightarrow> 'd np_dtype \<Rightarrow> 'fv \<Rightarrow> bool \<Rightarrow> 'env option \<Rightarrow> 'exc list
   \<Rightarrow> ('d, 'fv, 'v, 'exc, 'w, 'env) reader_class
   \<Rightarrow> 'exc error + ('d, 'fv, 'v, 'exc, 'w) ReaderTableEntry" where
  "reader_table_entry cast from_bounds asset_entry spec resampling dt fv rescale gdal_env
      errors_as_nodata reader =
     (case url asset_entry of
        None \<Rightarrow>
          (case np_array cast fv dt of
             Inl e \<Rightarrow> Inl e
           | Inr entry \<Rightarrow> Inr (Fill_Array entry))
      | Some u \<Rightarrow>
          (case bounds asset_entry of
             (min_x, min_y, max_x, max_y) \<Rightarrow>
               (case from_bounds min_x min_y max_x max_y (transform spec) 0 of
                  Inl e \<Rightarrow> Inl (Raised e)
                | Inr asset_window \<Rightarrow>
                    Inr (Reader_Window
                          (reader u spec resampling dt fv rescale gdal_env errors_as_nodata)
                          asset_window))))"

text \<open>The loop over \<^verbatim>\<open>np.ndenumerate(asset_table)\<close>: the cells in row-major order; the
  first exception ends it.\<close>

fun ndenumerate ::
  "('a \<Rightarrow> 'exc error + 'b) \<Rightarrow> 'a list \<Rightarrow> 'exc error + 'b list" where
  "ndenumerate body [] = Inr []"
| "ndenumerate body (x # xs) =
     (case body x of
        Inl e \<Rightarrow> Inl e
      | Inr y \<Rightarrow> (case ndenumerate body xs of Inl e \<Rightarrow> Inl e | Inr ys \<Rightarrow> Inr (y # ys)))"

text \<open>\<^verbatim>\<open>np.empty_like(asset_table, dtype=object)\<close> has the table's shape; every cell is
  then assigned.\<close>

definition asset_table_to_reader_and_window ::
  "('d np_dtype \<Rightarrow> 'fv \<Rightarrow> 'exc + 'v) \<Rightarrow> 'exc from_bounds_fn \<Rightarrow> ('d, asset_entry) ndarray
   \<Rightarrow> RasterSpec \<Rightarrow> Resampling \<Rightarrow> 'd np_dtype \<Rightarrow> 'fv \<Rightarrow> bool \<Rightarrow> 'env option \<Rightarrow> 'exc list
   \<Rightarrow> ('d, 'fv, 'v, 'exc, 'w, 'env) reader_class
   \<Rightarrow> 'exc error + ('d, ('d, 'fv, 'v, 'exc, 'w) ReaderTableEntry) ndarray" where
  "asset_table_to_reader_and_window cast from_bounds asset_table spec resampling dt fv rescale
      gdal_env errors_as_nodata reader =
     (case ndenumerate
             (\<lambda>asset_entry. reader_table_entry cast from_bounds asset_entry spec resampling dt fv
                 rescale gdal_env errors_as_nodata reader)
             (arr_data asset_table) of
        Inl e \<Rightarrow> Inl e
      | Inr entries \<Rightarrow>
          Inr \<lparr>arr_dtype = np_object, arr_shape = arr_shape asset_table, arr_data = entries\<rparr>)"

section \<open>Graph construction: \<open>items_to_dask\<close>\<close>

text \<open>
  dask's \<^verbatim>\<open>normalize_chunks(chunks, shape)\<close> for an integer chunk size, which it applies
  to every dimension. A dimension \<open>d\<close> with block length \<open>bd\<close> gets \<open>d div bd\<close> chunks of
  length \<open>bd\<close> and, when \<open>bd\<close> does not divide \<open>d\<close>, a last chunk with the rest; a
  dimension of length zero is written as one chunk of length zero. The chunk size
  \<open>-1\<close> stands for the whole dimension; zero divides by zero, and another negative size
  gives chunks that do not add up to the shape.
\<close>

definition blockdims_from_blockshape :: "nat \<Rightarrow> nat \<Rightarrow> nat list" where
  "blockdims_from_blockshape d bd =
     (if d = 0 then [0]
      else replicate (d div bd) bd @ (if d mod bd \<noteq> 0 then [d mod bd] else []))"

definition normalize_chunks :: "int \<Rightarrow> nat list \<Rightarrow> 'exc error + nat list list" where
  "normalize_chunks chunksize shp =
     (if chunksize = - 1 then Inr (map (\<lambda>d. blockdims_from_blockshape d d) shp)
      else if list_all (\<lambda>d. d = 0) shp then Inr (map (\<lambda>d. [0]) shp)
      else if chunksize = 0 then Inl ZeroDivisionError
      else if chunksize < 0 then Inl (ValueError Chunks_do_not_add_up)
      else Inr (map (\<lambda>d. blockdims_from_blockshape d (nat chunksize)) shp))"

text \<open>A dask array is its chunks (the chunk lengths of every axis), the dtype of its
  meta and its graph. Names, which are hashes of the inputs, are left out.\<close>

record ('d, 'g) dask_array =
  chunks :: "nat list list"
  meta :: "'d np_dtype"
  dsk :: 'g

definition da_numblocks :: "('d, 'g) dask_array \<Rightarrow> nat list" where
  "da_numblocks arr = map length (chunks arr)"

text \<open>\<^verbatim>\<open>da.from_array(x, chunks=...)\<close>: the graph is the array itself, cut as the chunks
  say.\<close>

definition from_array ::
  "('d, 'a) ndarray \<Rightarrow> int \<Rightarrow> 'exc error + ('d, ('d, 'a) ndarray) dask_array" where
  "from_array x chunksize =
     (case normalize_chunks chunksize (arr_shape x) of
        Inl e \<Rightarrow> Inl e
      | Inr c \<Rightarrow> Inr \<lparr>chunks = c, meta = arr_dtype x, dsk = x\<rparr>)"

text \<open>\<^verbatim>\<open>arr.map_blocks(func, ..., dtype=...)\<close>: a lazy layer that holds the function to
  apply to every block; the chunks are those of the argument. \<open>mb_fuse\<close> is the
  annotation the layer is built under.\<close>

record ('d, 'a, 'b, 'exc, 'g) map_blocks_layer =
  mb_func :: "('d, 'a) ndarray \<Rightarrow> 'exc error + ('d, 'b) ndarray"
  mb_arg :: "('d, 'g) dask_array"
  mb_fuse :: bool

definition map_blocks ::
  "('d, 'g) dask_array \<Rightarrow> (('d, 'a) ndarray \<Rightarrow> 'exc error + ('d, 'b) ndarray) \<Rightarrow> 'd np_dtype \<Rightarrow> bool
   \<Rightarrow> ('d, ('d, 'a, 'b, 'exc, 'g) map_blocks_layer) dask_array" where
  "map_blocks arr func dt fuse =
     \<lparr>chunks = chunks arr, meta = dt, dsk = \<lparr>mb_func = func, mb_arg = arr, mb_fuse = fuse\<rparr>\<rparr>"

text \<open>\<^verbatim>\<open>blockwise(func, name, out_ind, arg, arg_ind, dep, dep_ind, numblocks=...)\<close>: the
  description of the layer, not its tasks.\<close>

record ('d, 'e, 'v, 'exc, 'w, 'g) blockwise_layer =
  bw_func :: "('d, 'e) ndarray \<Rightarrow> slice list \<Rightarrow> 'w \<Rightarrow> ('exc error + ('d, 'v) ndarray) \<times> 'w"
  bw_out_ind :: string
  bw_arg :: "('d, 'g) dask_array"
  bw_arg_ind :: string
  bw_dep :: Slices
  bw_dep_ind :: string
  bw_numblocks :: "nat list"

type_synonym ('d, 'fv, 'v, 'exc, 'w) reader_table_graph =
  "('d, asset_entry, ('d, 'fv, 'v, 'exc, 'w) ReaderTableEntry, 'exc, ('d, asset_entry) ndarray)
     map_blocks_layer"

type_synonym ('d, 'fv, 'v, 'exc, 'w) rasters_graph =
  "('d, ('d, 'fv, 'v, 'exc, 'w) ReaderTableEntry, 'v, 'exc, 'w,
    ('d, 'fv, 'v, 'exc, 'w) reader_table_graph) blockwise_layer"

text \<open>\<open>items_to_dask\<close>, with numpy's \<^verbatim>\<open>can_cast\<close> as the parameter \<open>can_cast\<close>. The
  check of the fill value is the first thing it does.\<close>

definition items_to_dask ::
  "('fv \<Rightarrow> 'd np_dtype \<Rightarrow> bool) \<Rightarrow> ('d np_dtype \<Rightarrow> 'fv \<Rightarrow> 'exc + 'v) \<Rightarrow> 'exc from_bounds_fn
   \<Rightarrow> ('d, asset_entry) ndarray \<Rightarrow> RasterSpec \<Rightarrow> int \<Rightarrow> Resampling \<Rightarrow> 'd np_dtype \<Rightarrow> 'fv \<Rightarrow> bool
   \<Rightarrow> ('d, 'fv, 'v, 'exc, 'w, 'env) reader_class \<Rightarrow> 'env option \<Rightarrow> 'exc list option
   \<Rightarrow> 'exc error + ('d, ('d, 'fv, 'v, 'exc, 'w) rasters_graph) dask_array" where
  "items_to_dask can_cast cast from_bounds asset_table spec chunksize resampling dt fv rescale
      reader gdal_env errors_as_nodata =
     (let errors_as_nodata = (case errors_as_nodata of None \<Rightarrow> [] | Some es \<Rightarrow> es) in
      if \<not> can_cast fv dt then Inl (ValueError Incompatible_fill_value)
      else
        (case from_array asset_table 1 of
           Inl e \<Rightarrow> Inl e
         | Inr asset_table_dask \<Rightarrow>
             (let reader_table =
                    map_blocks asset_table_dask
                      (\<lambda>block. asset_table_to_reader_and_window cast from_bounds block spec
                          resampling dt fv rescale gdal_env errors_as_nodata reader)
                      np_object False;
                  shape_yx = [fst (shape spec), snd (shape spec)]
              in
                (case normalize_chunks chunksize shape_yx of
                   Inl e \<Rightarrow> Inl e
                 | Inr chunks_yx \<Rightarrow>
                     (let chunks' = chunks reader_table @ chunks_yx;
                          lyr = \<lparr>bw_func = fetch_raster_window cast, bw_out_ind = ''tbyx'',
                                 bw_arg = reader_table, bw_arg_ind = ''tb'',
                                 bw_dep = Slices_init (map (map int) chunks_yx), bw_dep_ind = ''yx'',
                                 bw_numblocks = da_numblocks reader_table\<rparr>
                      in Inr \<lparr>chunks = chunks', meta = dt, dsk = lyr\<rparr>)))))"

section \<open>What the claims say, as predicates\<close>

text \<open>The slice the spec names for chunk \<open>i\<close> of an axis with chunk sizes \<open>c\<close>: from the sum
  of the first \<open>i\<close> sizes to the sum of the first \<open>i + 1\<close>.\<close>

definition cum_slice :: "int \<Rightarrow> int list \<Rightarrow> slice" where
  "cum_slice i c = \<lparr>start = sum_list (take (nat i) c), stop = sum_list (take (nat i + 1) c)\<rparr>"

text \<open>The entry the spec names for a cell: without URL, a one-element array of the fill
  value cast to the output dtype; with a URL, the reader made for that URL with the shared
  configuration, and the window of the cell's bounds under the spec's transform with
  precision zero.\<close>

definition entry_for ::
  "('d np_dtype \<Rightarrow> 'fv \<Rightarrow> 'exc + 'v) \<Rightarrow> 'exc from_bounds_fn \<Rightarrow> RasterSpec
   \<Rightarrow> Resampling \<Rightarrow> 'd np_dtype \<Rightarrow> 'fv \<Rightarrow> bool \<Rightarrow> 'env option \<Rightarrow> 'exc list
   \<Rightarrow> ('d, 'fv, 'v, 'exc, 'w, 'env) reader_class
   \<Rightarrow> asset_entry \<Rightarrow> ('d, 'fv, 'v, 'exc, 'w) ReaderTableEntry \<Rightarrow> bool" where
  "entry_for cast from_bounds spec resampling dt fv rescale gdal_env errors_as_nodata reader
      cell entry =
     (case url cell of
        None \<Rightarrow> \<exists>x. cast dt fv = Inr x
                 \<and> entry = Fill_Array \<lparr>arr_dtype = dt, arr_shape = [], arr_data = [x]\<rparr>
      | Some u \<Rightarrow>
          \<exists>asset_window.
            from_bounds (fst (bounds cell)) (fst (snd (bounds cell))) (fst (snd (snd (bounds cell))))
                (snd (snd (snd (bounds cell)))) (transform spec) 0 = Inr asset_window
            \<and> entry = Reader_Window
                        (reader u spec resampling dt fv rescale gdal_env errors_as_nodata)
                        asset_window)"

text \<open>The external conversions of a cell return: numpy converts the fill value (cell
  without URL), rasterio converts the bounds (cell with a URL).\<close>

definition convertible ::
  "('d np_dtype \<Rightarrow> 'fv \<Rightarrow> 'exc + 'v) \<Rightarrow> 'exc from_bounds_fn \<Rightarrow> RasterSpec
   \<Rightarrow> 'd np_dtype \<Rightarrow> 'fv \<Rightarrow> asset_entry \<Rightarrow> bool" where
  "convertible cast from_bounds spec dt fv cell =
     (case url cell of
        None \<Rightarrow> \<exists>x. cast dt fv = Inr x
      | Some u \<Rightarrow>
          \<exists>asset_window.
            from_bounds (fst (bounds cell)) (fst (snd (bounds cell))) (fst (snd (snd (bounds cell))))
                (snd (snd (snd (bounds cell)))) (transform spec) 0 = Inr asset_window)"



section \<open>Concrete inputs\<close>

text \<open>
  A numpy conversion that keeps integers, and a check that accepts the fill values of an
  unsigned byte. A reader that counts its reads in the world and returns a block of sevens
  of the window's shape. A stand-in for rasterio's \<^verbatim>\<open>from_bounds\<close> on transforms
  without rotation: it refuses bounds that run against the transform. The raster spec of
  10 rows and 12 columns maps pixel (row, column) to the coordinates (column, 10 - row).
\<close>

definition ex_cast :: "unit np_dtype \<Rightarrow> int \<Rightarrow> unit + int" where
  "ex_cast dt v = Inr v"

definition ex_can_cast :: "int \<Rightarrow> unit np_dtype \<Rightarrow> bool" where
  "ex_can_cast v dt = (0 \<le> v \<and> v < 256)"

definition ex_reader :: "(unit, int, int, unit, nat) Reader" where
  "ex_reader =
     \<lparr>fill_value = 0, dtype = np_dtype (),
      read = (\<lambda>window opened.
        (Inr \<lparr>arr_dtype = np_dtype (), arr_shape = windows_shape window,
               arr_data = replicate (prod_list (windows_shape window)) 7\<rparr>, Suc opened))\<rparr>"

definition ex_reader_class :: "(unit, int, int, unit, nat, unit) reader_class" where
  "ex_reader_class u spec resampling dt fv rescale gdal_env errors_as_nodata =
     ex_reader\<lparr>fill_value := fv, dtype := dt\<rparr>"

definition ex_from_bounds :: "unit from_bounds_fn" where
  "ex_from_bounds min_x min_y max_x max_y tf precision =
     (case tf of
        (a, b, c, d, e, f) \<Rightarrow>
          if a = 0 \<or> e = 0 \<or> (max_x - min_x) / a < 0 \<or> (min_y - max_y) / e < 0 then Inl ()
          else Inr \<lparr>col_off = (min_x - c) / a, row_off = (max_y - f) / e,
                    width = (max_x - min_x) / a, height = (min_y - max_y) / e\<rparr>)"

definition ex_cell ::
  "(unit, int, int, unit, nat) ReaderTableEntry
   \<Rightarrow> (unit, (unit, int, int, unit, nat) ReaderTableEntry) ndarray" where
  "ex_cell entry = \<lparr>arr_dtype = np_object, arr_shape = [1, 1], arr_data = [entry]\<rparr>"

definition ex_fill :: "(unit, int) ndarray" where
  "ex_fill = \<lparr>arr_dtype = np_dtype (), arr_shape = [], arr_data = [0]\<rparr>"


definition ex_near :: "real Window" where
  "ex_near = \<lparr>col_off = 0, row_off = 0, width = 10, height = 10\<rparr>"


definition ex_spec :: RasterSpec where
  "ex_spec = \<lparr>transform = (1, 0, 0, 0, - 1, 10), shape = (10, 12)\<rparr>"

definition ex_table :: "(unit, asset_entry) ndarray" where
  "ex_table =
     \<lparr>arr_dtype = np_dtype (), arr_shape = [1, 2],
      arr_data = [\<lparr>url = None, bounds = (0, 0, 0, 0)\<rparr>,
                  \<lparr>url = Some ''a.tif'', bounds = (0, 0, 10, 10)\<rparr>]\<rparr>"


section \<open>Broadcasting a one-element array\<close>

lemma concat_replicate_const: "concat (replicate n (replicate m x)) = replicate (n * m) x"
  by (induction n) (auto simp: replicate_add)

lemma broadcast_data_ones:
  "length s = length t \<Longrightarrow> set s \<subseteq> {1} \<Longrightarrow> broadcast_data s t [x] = replicate (prod_list t) x"
proof (induction s t rule: list_induct2)
  case Nil
  then show ?case by simp
next
  case (Cons a s b t)
  then have a: "a = 1" and s: "set s \<subseteq> {1}" by auto
  from s have p: "prod_list s = 1" by (induction s) auto
  from Cons.IH [OF s] have ih: "broadcast_data s t [x] = replicate (prod_list t) x" .
  show ?case
  proof (cases "b = 1")
    case True
    then show ?thesis using a p ih by simp
  next
    case False
    then show ?thesis using a ih by (simp add: concat_replicate_const)
  qed
qed

lemma list_all2_ones:
  "length s = length t \<Longrightarrow> set s \<subseteq> {1} \<Longrightarrow> list_all2 (\<lambda>a b. a = (1::nat) \<or> a = b) s t"
  by (induction s t rule: list_induct2) auto

lemma broadcastable_ones:
  assumes "length s \<le> length t" "set s \<subseteq> {1}"
  shows "broadcastable s t"
proof -
  have "length (pad_shape s t) = length t" "set (pad_shape s t) \<subseteq> {1}"
    using assms by (auto simp: pad_shape_def)
  then have "list_all2 (\<lambda>a b. a = 1 \<or> a = b) (pad_shape s t) t"
    by (rule list_all2_ones)
  with assms(1) show ?thesis unfolding broadcastable_def by blast
qed

lemma broadcast_to_one_element:
  assumes "length (arr_shape arr) \<le> length t" "set (arr_shape arr) \<subseteq> {1}" "arr_data arr = [x]"
  shows "broadcast_to arr t = Inr \<lparr>arr_dtype = arr_dtype arr, arr_shape = t, arr_data = replicate (prod_list t) x\<rparr>"
proof -
  have "set (pad_shape (arr_shape arr) t) \<subseteq> {1}" "length (pad_shape (arr_shape arr) t) = length t"
    using assms by (auto simp: pad_shape_def)
  then have "broadcast_data (pad_shape (arr_shape arr) t) t [x] = replicate (prod_list t) x"
    by (simp add: broadcast_data_ones)
  then show ?thesis using assms by (simp add: broadcast_to_def broadcastable_ones)
qed

text \<open>The block of a broadcast one-element array has as many elements as its shape says.\<close>

lemma broadcast_to_one_element_wf:
  assumes "length (arr_shape arr) \<le> length t" "set (arr_shape arr) \<subseteq> {1}" "arr_data arr = [x]"
    and "broadcast_to arr t = Inr out"
  shows "wf_ndarray out"
  using assms by (auto simp: broadcast_to_one_element wf_ndarray_def)

section \<open>The window fetch executor: fill blocks\<close>

lemma item_single: "arr_data arr = [x] \<Longrightarrow> item arr = Inr x"
  by (simp add: item_def)

lemma fetch_raster_window_Fill_Array:
  fixes cast :: "'d np_dtype \<Rightarrow> 'fv \<Rightarrow> 'exc + 'v"
  assumes "ndarray_size reader_entry = 1" "arr_data reader_entry = [Fill_Array a]"
      and "from_slices rows cols = (Inr cw :: 'exc error + int Window)"
  shows "fetch_raster_window cast reader_entry [rows, cols] w
          = (broadcast_to a ([1, 1] @ windows_shape cw), w)"
  using assms by (simp add: fetch_raster_window_def item_single)







section \<open>The window fetch executor: reading\<close>



section \<open>The window fetch executor: determinism\<close>

text \<open>
  C8. Take a block and slices, and two states of the world. If the block of every read of
  the block's readers is the same in both states (the read is a function of its window),
  then the output of \<open>fetch_raster_window\<close> is the same in both states; in particular a
  second invocation, in the world the first one left, returns what the first returned.
\<close>

theorem fetch_raster_window_deterministic:
  assumes "\<And>reader aw cw. Reader_Window reader aw \<in> set (arr_data reader_entry)
             \<Longrightarrow> fst (read reader cw w1) = fst (read reader cw w2)"
  shows "fst (fetch_raster_window cast reader_entry slices w1)
       = fst (fetch_raster_window cast reader_entry slices w2)"
proof (cases "length slices = 2 \<and> ndarray_size reader_entry = 1")
  case False
  then show ?thesis by (auto simp: fetch_raster_window_def)
next
  case True
  show ?thesis
  proof (cases "arr_data reader_entry")
    case Nil
    then show ?thesis by (simp add: fetch_raster_window_def item_def)
  next
    case (Cons e es)
    show ?thesis
    proof (cases es)
      case (Cons e' es')
      then show ?thesis using \<open>arr_data reader_entry = e # es\<close>
        by (simp add: fetch_raster_window_def item_def)
    next
      case Nil
      with \<open>arr_data reader_entry = e # es\<close> have d: "arr_data reader_entry = [e]" by simp
      show ?thesis
      proof (cases e)
        case (Fill_Array a)
        then show ?thesis using d True
          by (simp add: fetch_raster_window_def item_def split: sum.splits)
      next
        case (Reader_Window reader aw)
        have key: "fst (case read reader cw w1 of
                          (Inl e, w') \<Rightarrow> (Inl (Raised e), w')
                        | (Inr b, w') \<Rightarrow> (Inr (add_outer_dims b), w'))
                 = fst (case read reader cw w2 of
                          (Inl e, w') \<Rightarrow> (Inl (Raised e), w')
                        | (Inr b, w') \<Rightarrow> (Inr (add_outer_dims b), w'))" for cw
        proof -
          obtain r1 s1 r2 s2 where rd: "read reader cw w1 = (r1, s1)" "read reader cw w2 = (r2, s2)"
            by fastforce
          from assms [of reader aw cw] d Reader_Window rd have "r1 = r2" by simp
          with rd show ?thesis by (cases r2) simp_all
        qed
        show ?thesis using d True Reader_Window key
          by (simp add: fetch_raster_window_def item_def split: sum.splits)
      qed
    qed
  qed
qed

theorem fetch_raster_window_deterministic_witness:
  "fst (fetch_raster_window ex_cast (ex_cell (Reader_Window ex_reader ex_near))
          [\<lparr>start = 0, stop = 2\<rparr>, \<lparr>start = 5, stop = 8\<rparr>] 0)
   = fst (fetch_raster_window ex_cast (ex_cell (Reader_Window ex_reader ex_near))
          [\<lparr>start = 0, stop = 2\<rparr>, \<lparr>start = 5, stop = 8\<rparr>]
          (snd (fetch_raster_window ex_cast (ex_cell (Reader_Window ex_reader ex_near))
                  [\<lparr>start = 0, stop = 2\<rparr>, \<lparr>start = 5, stop = 8\<rparr>] 0)))"
proof -
  have "fst (read reader cw 0) = fst (read reader cw s)"
    if "Reader_Window reader aw \<in> set (arr_data (ex_cell (Reader_Window ex_reader ex_near)))"
    for reader aw cw s
    using that by (simp add: ex_cell_def ex_reader_def)
  then show ?thesis
    by (rule fetch_raster_window_deterministic)
qed

section \<open>The window fetch executor: assertions\<close>

text \<open>
  C10. \<open>fetch_raster_window\<close> raises \<open>AssertionError\<close>, reporting the slices, when it does
  not get exactly two slices; with two slices it raises \<open>AssertionError\<close>, reporting the
  size, when the block has not exactly one cell; with two slices and a block of one cell
  no \<open>AssertionError\<close> comes out of it.
\<close>

theorem fetch_raster_window_asserts:
  "(length slices \<noteq> 2 \<longrightarrow>
      fetch_raster_window cast reader_entry slices w
        = (Inl (AssertionError (Assert_slices slices)), w))
   \<and> (length slices = 2 \<and> ndarray_size reader_entry \<noteq> 1 \<longrightarrow>
      fetch_raster_window cast reader_entry slices w
        = (Inl (AssertionError (Assert_size (ndarray_size reader_entry))), w))
   \<and> (length slices = 2 \<and> ndarray_size reader_entry = 1 \<longrightarrow>
      (\<forall>a. fst (fetch_raster_window cast reader_entry slices w) \<noteq> Inl (AssertionError a)))"
proof (intro conjI impI allI)
  assume "length slices \<noteq> 2"
  then show "fetch_raster_window cast reader_entry slices w
        = (Inl (AssertionError (Assert_slices slices)), w)"
    by (simp add: fetch_raster_window_def)
next
  assume "length slices = 2 \<and> ndarray_size reader_entry \<noteq> 1"
  then show "fetch_raster_window cast reader_entry slices w
        = (Inl (AssertionError (Assert_size (ndarray_size reader_entry))), w)"
    by (simp add: fetch_raster_window_def)
next
  fix a
  assume "length slices = 2 \<and> ndarray_size reader_entry = 1"
  then show "fst (fetch_raster_window cast reader_entry slices w) \<noteq> Inl (AssertionError a)"
    by (auto simp: fetch_raster_window_def item_def from_slices_def np_array_def broadcast_to_def
        split: sum.splits list.splits ReaderTableEntry.splits prod.splits if_splits)
qed

theorem fetch_raster_window_asserts_witness:
  "fetch_raster_window ex_cast (ex_cell (Fill_Array ex_fill)) [\<lparr>start = 0, stop = 2\<rparr>] 0
     = (Inl (AssertionError (Assert_slices [\<lparr>start = 0, stop = 2\<rparr>])), 0)
   \<and> fetch_raster_window ex_cast
        \<lparr>arr_dtype = np_object, arr_shape = [1, 2], arr_data = [Fill_Array ex_fill, Fill_Array ex_fill]\<rparr>
        [\<lparr>start = 0, stop = 2\<rparr>, \<lparr>start = 5, stop = 8\<rparr>] 0
     = (Inl (AssertionError (Assert_size 2)), 0)
   \<and> fst (fetch_raster_window ex_cast (ex_cell (Fill_Array ex_fill))
        [\<lparr>start = 0, stop = 2\<rparr>, \<lparr>start = 5, stop = 8\<rparr>] 0) \<noteq> Inl (AssertionError (Assert_size 1))"
  using fetch_raster_window_asserts [of "[\<lparr>start = 0, stop = 2\<rparr>]" ex_cast "ex_cell (Fill_Array ex_fill)" 0]
    fetch_raster_window_asserts [of "[\<lparr>start = 0, stop = 2\<rparr>, \<lparr>start = 5, stop = 8\<rparr>]" ex_cast
      "\<lparr>arr_dtype = np_object, arr_shape = [1, 2], arr_data = [Fill_Array ex_fill, Fill_Array ex_fill]\<rparr>" 0]
    fetch_raster_window_asserts [of "[\<lparr>start = 0, stop = 2\<rparr>, \<lparr>start = 5, stop = 8\<rparr>]" ex_cast
      "ex_cell (Fill_Array ex_fill)" 0]
  by (simp add: ndarray_size_def ex_cell_def)

section \<open>The reader-table builder\<close>

lemma ndenumerate_Inr:
  "list_all (\<lambda>x. \<exists>y. body x = Inr y \<and> P x y) xs
   \<Longrightarrow> \<exists>ys. ndenumerate body xs = Inr ys \<and> list_all2 P xs ys"
  by (induction xs) auto

lemma ndenumerate_length:
  "ndenumerate body xs = Inr ys \<Longrightarrow> length ys = length xs"
  by (induction xs arbitrary: ys) (auto split: sum.splits)

text \<open>The reader table has as many entries as the asset table has cells.\<close>

lemma asset_table_to_reader_and_window_wf:
  assumes "wf_ndarray asset_table"
    and "asset_table_to_reader_and_window cast from_bounds asset_table spec resampling dt fv
           rescale gdal_env errors_as_nodata reader = Inr reader_table"
  shows "wf_ndarray reader_table"
  using assms
  by (auto simp: asset_table_to_reader_and_window_def wf_ndarray_def
      split: sum.splits dest: ndenumerate_length)

text \<open>A cell that does not convert makes the builder raise.\<close>

lemma ndenumerate_Inl:
  "\<not> list_all (\<lambda>x. \<exists>y. body x = Inr y) xs \<Longrightarrow> \<exists>e. ndenumerate body xs = Inl e"
proof (induction xs)
  case Nil
  then show ?case by simp
next
  case (Cons x xs)
  then show ?case by (cases "body x"; cases "ndenumerate body xs") auto
qed

lemma asset_table_to_reader_and_window_raises:
  fixes cast :: "'d np_dtype \<Rightarrow> 'fv \<Rightarrow> 'exc + 'v"
    and reader :: "('d, 'fv, 'v, 'exc, 'w, 'env) reader_class"
  assumes "\<not> list_all (convertible cast from_bounds spec dt fv) (arr_data asset_table)"
  shows "\<exists>e. asset_table_to_reader_and_window cast from_bounds asset_table spec resampling dt fv
               rescale gdal_env errors_as_nodata reader = Inl e"
proof -
  let ?body = "\<lambda>asset_entry. reader_table_entry cast from_bounds asset_entry spec resampling dt fv
                 rescale gdal_env errors_as_nodata reader"
  have "convertible cast from_bounds spec dt fv c" if "?body c = Inr y" for c y
    using that
    by (auto simp: convertible_def reader_table_entry_def np_array_def
        split: option.splits prod.splits sum.splits)
  with assms have "\<not> list_all (\<lambda>c. \<exists>y. ?body c = Inr y) (arr_data asset_table)"
    by (auto simp: list_all_iff)
  from ndenumerate_Inl [OF this] show ?thesis
    by (auto simp: asset_table_to_reader_and_window_def)
qed

text \<open>
  C4. For an asset table whose cells all convert (numpy converts the fill value, rasterio
  converts the bounds of every cell that has a URL), \<open>asset_table_to_reader_and_window\<close>
  returns an object array of the table's shape that holds, cell by cell in the table's
  order: for a cell without URL the zero-dimensional one-element array of the fill value
  cast to the output dtype; for a cell with a URL the pair of the reader made for that URL
  with the shared configuration and the window that \<open>from_bounds\<close> gives for the cell's
  bounds, the spec's transform and precision zero.
\<close>

theorem asset_table_to_reader_and_window_entries:
  fixes cast :: "'d np_dtype \<Rightarrow> 'fv \<Rightarrow> 'exc + 'v"
    and reader :: "('d, 'fv, 'v, 'exc, 'w, 'env) reader_class"
  assumes "list_all (convertible cast from_bounds spec dt fv) (arr_data asset_table)"
  shows "\<exists>reader_table.
           asset_table_to_reader_and_window cast from_bounds asset_table spec resampling dt fv
               rescale gdal_env errors_as_nodata reader = Inr reader_table
           \<and> arr_dtype reader_table = np_object
           \<and> arr_shape reader_table = arr_shape asset_table
           \<and> list_all2
                (entry_for cast from_bounds spec resampling dt fv rescale gdal_env errors_as_nodata
                   reader)
                (arr_data asset_table) (arr_data reader_table)"
proof -
  let ?body = "\<lambda>asset_entry. reader_table_entry cast from_bounds asset_entry spec resampling dt fv
                 rescale gdal_env errors_as_nodata reader"
  let ?P = "entry_for cast from_bounds spec resampling dt fv rescale gdal_env errors_as_nodata reader"
  have "\<exists>y. ?body c = Inr y \<and> ?P c y" if "convertible cast from_bounds spec dt fv c" for c
    using that
    by (auto simp: convertible_def reader_table_entry_def entry_for_def np_array_def
        split: option.splits prod.splits)
  with assms have "list_all (\<lambda>c. \<exists>y. ?body c = Inr y \<and> ?P c y) (arr_data asset_table)"
    by (simp add: list_all_iff)
  from ndenumerate_Inr [OF this] obtain entries where
    "ndenumerate ?body (arr_data asset_table) = Inr entries"
    "list_all2 ?P (arr_data asset_table) entries"
    by blast
  then show ?thesis
    by (simp add: asset_table_to_reader_and_window_def)
qed

theorem asset_table_to_reader_and_window_entries_witness:
  "\<exists>reader_table.
     asset_table_to_reader_and_window ex_cast ex_from_bounds ex_table ex_spec 0 (np_dtype ()) 0 True
         None [] ex_reader_class = Inr reader_table
     \<and> arr_dtype reader_table = np_object
     \<and> arr_shape reader_table = [1, 2]
     \<and> arr_data reader_table
         = [Fill_Array \<lparr>arr_dtype = np_dtype (), arr_shape = [], arr_data = [0]\<rparr>,
            Reader_Window (ex_reader_class ''a.tif'' ex_spec 0 (np_dtype ()) 0 True None [])
              \<lparr>col_off = 0, row_off = 0, width = 10, height = 10\<rparr>]"
proof -
  have ok: "list_all (convertible ex_cast ex_from_bounds ex_spec (np_dtype ()) 0) (arr_data ex_table)"
    by (simp add: convertible_def ex_table_def ex_cast_def ex_from_bounds_def ex_spec_def)
  show ?thesis
    using asset_table_to_reader_and_window_entries
      [of ex_cast ex_from_bounds ex_spec "np_dtype ()" 0 ex_table 0 True None "[]" ex_reader_class,
        OF ok]
    by (auto simp: list_all2_Cons1 entry_for_def ex_table_def ex_cast_def ex_from_bounds_def
        ex_spec_def)
qed

section \<open>From a cell without URL to its block\<close>

text \<open>The builder and the executor together, on the block of one cell: a cell without URL
  gives, for every requested window, the constant block of the fill value cast to the
  output dtype.\<close>

lemma fetch_raster_window_of_cell_without_url:
  fixes cast :: "'d np_dtype \<Rightarrow> 'fv \<Rightarrow> 'exc + 'v"
    and reader :: "('d, 'fv, 'v, 'exc, 'w, 'env) reader_class"
  assumes "url cell = None" and "cast dt fv = Inr x"
    and "from_slices rows cols = (Inr cw :: 'exc error + int Window)"
    and "asset_table_to_reader_and_window cast from_bounds
           \<lparr>arr_dtype = d0, arr_shape = [1, 1], arr_data = [cell]\<rparr> spec resampling dt fv
           rescale gdal_env errors_as_nodata reader = Inr reader_entry"
  shows "fetch_raster_window cast reader_entry [rows, cols] w
          = (Inr \<lparr>arr_dtype = dt, arr_shape = [1, 1, nat (height cw), nat (width cw)],
                  arr_data = replicate (nat (height cw) * nat (width cw)) x\<rparr>, w)"
proof -
  let ?f = "\<lparr>arr_dtype = dt, arr_shape = [], arr_data = [x]\<rparr> :: ('d, 'v) ndarray"
  from assms(1,2,4) have re: "reader_entry
      = \<lparr>arr_dtype = np_object, arr_shape = [1, 1], arr_data = [Fill_Array ?f]\<rparr>"
    by (auto simp: asset_table_to_reader_and_window_def reader_table_entry_def np_array_def)
  then have one: "ndarray_size reader_entry = 1" "arr_data reader_entry = [Fill_Array ?f]"
    by (simp_all add: ndarray_size_def)
  have "broadcast_to ?f ([1, 1] @ windows_shape cw)
         = (Inr \<lparr>arr_dtype = dt, arr_shape = [1, 1, nat (height cw), nat (width cw)],
                 arr_data = replicate (nat (height cw) * nat (width cw)) x\<rparr> :: 'exc error + ('d, 'v) ndarray)"
    by (subst broadcast_to_one_element [where x = x]) (simp_all add: windows_shape_def)
  then show ?thesis
    using fetch_raster_window_Fill_Array [OF one assms(3), of cast w] by simp
qed

section \<open>Graph construction\<close>

lemma blockdims_chunk_one:
  "blockdims_from_blockshape d (Suc 0) = (if d = 0 then [0] else replicate d 1)"
  by (simp add: blockdims_from_blockshape_def)

lemma normalize_chunks_one:
  "normalize_chunks 1 shp = Inr (map (\<lambda>d. if d = 0 then [0] else replicate d 1) shp)"
  by (auto simp: normalize_chunks_def blockdims_chunk_one list_all_iff)


lemma normalize_chunks_pos:
  "0 < chunksize \<Longrightarrow>
   normalize_chunks chunksize shp = Inr (map (\<lambda>d. blockdims_from_blockshape d (nat chunksize)) shp)"
  by (auto simp: normalize_chunks_def blockdims_from_blockshape_def list_all_iff)

lemma items_to_dask_ok:
  assumes "can_cast fv dt" "0 < chunksize"
  shows "\<exists>lyr. items_to_dask can_cast cast from_bounds asset_table spec chunksize resampling dt fv
            rescale reader gdal_env errors_as_nodata
          = Inr \<lparr>chunks = map (\<lambda>d. if d = 0 then [0] else replicate d 1) (arr_shape asset_table)
                    @ [blockdims_from_blockshape (fst (shape spec)) (nat chunksize),
                       blockdims_from_blockshape (snd (shape spec)) (nat chunksize)],
                  meta = dt, dsk = lyr\<rparr>"
  using assms
  by (simp add: items_to_dask_def from_array_def normalize_chunks_one normalize_chunks_pos
      map_blocks_def Let_def)


text \<open>
  C3. If the fill value is not representable in the output dtype, \<open>items_to_dask\<close> raises
  the \<open>ValueError\<close> of the incompatible fill value, whatever the other arguments are (also
  those with which a later step would raise), and no array is built. If the fill value is
  representable, that error is not raised, and with a positive chunk size the array is
  built.
\<close>

theorem items_to_dask_fill_value_check:
  "(\<not> can_cast fv dt \<longrightarrow>
      items_to_dask can_cast cast from_bounds asset_table spec chunksize resampling dt fv rescale
          reader gdal_env errors_as_nodata = Inl (ValueError Incompatible_fill_value))
   \<and> (can_cast fv dt \<longrightarrow>
      items_to_dask can_cast cast from_bounds asset_table spec chunksize resampling dt fv rescale
          reader gdal_env errors_as_nodata \<noteq> Inl (ValueError Incompatible_fill_value)
      \<and> (0 < chunksize \<longrightarrow>
           (\<exists>rasters. items_to_dask can_cast cast from_bounds asset_table spec chunksize resampling
               dt fv rescale reader gdal_env errors_as_nodata = Inr rasters)))"
proof (intro conjI impI)
  assume "\<not> can_cast fv dt"
  then show "items_to_dask can_cast cast from_bounds asset_table spec chunksize resampling dt fv
      rescale reader gdal_env errors_as_nodata = Inl (ValueError Incompatible_fill_value)"
    by (simp add: items_to_dask_def)
next
  assume "can_cast fv dt"
  then show "items_to_dask can_cast cast from_bounds asset_table spec chunksize resampling dt fv
      rescale reader gdal_env errors_as_nodata \<noteq> Inl (ValueError Incompatible_fill_value)"
    by (simp add: items_to_dask_def from_array_def normalize_chunks_one normalize_chunks_def
        map_blocks_def Let_def)
next
  assume ok: "can_cast fv dt" "0 < chunksize"
  from items_to_dask_ok [of can_cast fv dt chunksize cast from_bounds asset_table spec resampling
      rescale reader gdal_env errors_as_nodata, OF ok]
  show "\<exists>rasters. items_to_dask can_cast cast from_bounds asset_table spec chunksize resampling
               dt fv rescale reader gdal_env errors_as_nodata = Inr rasters"
    by blast
qed

theorem items_to_dask_fill_value_check_witness:
  "items_to_dask ex_can_cast ex_cast ex_from_bounds ex_table ex_spec 0 0 (np_dtype ()) (- 1) True
      ex_reader_class None None = Inl (ValueError Incompatible_fill_value)
   \<and> items_to_dask ex_can_cast ex_cast ex_from_bounds ex_table ex_spec 0 0 (np_dtype ()) 0 True
      ex_reader_class None None \<noteq> Inl (ValueError Incompatible_fill_value)
   \<and> (\<exists>rasters. items_to_dask ex_can_cast ex_cast ex_from_bounds ex_table ex_spec 5 0
        (np_dtype ()) 0 True ex_reader_class None None = Inr rasters)"
proof -
  have no: "\<not> ex_can_cast (- 1) (np_dtype ())" and yes: "ex_can_cast 0 (np_dtype ())"
    by (simp_all add: ex_can_cast_def)
  show ?thesis
    using items_to_dask_fill_value_check
      [of ex_can_cast "- 1" "np_dtype ()" ex_cast ex_from_bounds ex_table ex_spec 0 0 True
        ex_reader_class None None]
      items_to_dask_fill_value_check
      [of ex_can_cast 0 "np_dtype ()" ex_cast ex_from_bounds ex_table ex_spec 0 0 True
        ex_reader_class None None]
      items_to_dask_fill_value_check
      [of ex_can_cast 0 "np_dtype ()" ex_cast ex_from_bounds ex_table ex_spec 5 0 True
        ex_reader_class None None]
      no yes
    by simp
qed





section \<open>Window index: cumulative offsets\<close>

lemma length_accumulate: "length (accumulate c acc) = length c + 1"
  by (induction c arbitrary: acc) auto

lemma accumulate_nth:
  "k \<le> length c \<Longrightarrow> accumulate c acc ! k = acc + sum_list (take k c)"
proof (induction c arbitrary: acc k)
  case Nil
  then show ?case by simp
next
  case (Cons x xs)
  show ?case
  proof (cases k)
    case 0
    then show ?thesis by simp
  next
    case (Suc j)
    with Cons.prems have "j \<le> length xs" by simp
    from Cons.IH [OF this, of "acc + x"] Suc show ?thesis by simp
  qed
qed

lemma py_index_accumulate:
  assumes "0 \<le> i" and "i \<le> int (length c)"
  shows "py_index (accumulate c 0) i = Inr (sum_list (take (nat i) c))"
proof -
  have "nat i \<le> length c" using assms by simp
  then have "accumulate c 0 ! nat i = sum_list (take (nat i) c)"
    by (simp add: accumulate_nth)
  with assms show ?thesis
    by (simp add: py_index_def length_accumulate)
qed

lemma getitem_axes_accumulate:
  "list_all2 (\<lambda>i c. 0 \<le> i \<and> i < int (length c)) idx sizes \<Longrightarrow>
   getitem_axes (zip idx (map (\<lambda>c. accumulate c 0) sizes)) = Inr (map2 cum_slice idx sizes)"
proof (induction idx sizes rule: list_all2_induct)
  case Nil
  then show ?case by simp
next
  case (Cons i idx c sizes)
  from Cons.hyps have i: "0 \<le> i" "i \<le> int (length c)" "0 \<le> i + 1" "i + 1 \<le> int (length c)"
    by auto
  from i have suc: "nat (i + 1) = nat i + 1" by arith
  show ?case
    using Cons.IH i by (simp add: py_index_accumulate cum_slice_def suc)
qed

section \<open>Window index: chunk coordinate to slices\<close>

text \<open>
  C5. For every sequence of per-axis chunk sizes and every chunk coordinate in range (one
  index per axis, each from 0 up to the number of chunks of its axis), the index built
  by \<open>Slices_init\<close> returns, per axis, the slice from the sum of the chunk sizes before that
  chunk to the sum up to and including it. The object stores one offset sequence per axis,
  of length one more than the number of chunks of the axis, and \<open>numblocks\<close> is the number
  of chunks per axis.
\<close>

theorem Slices_getitem_cumulative:
  assumes "list_all2 (\<lambda>i c. 0 \<le> i \<and> i < int (length c)) idx sizes"
  shows "getitem (Slices_init sizes) idx = Inr (map2 cum_slice idx sizes)
       \<and> map length (starts (Slices_init sizes)) = map (\<lambda>c. length c + 1) sizes
       \<and> numblocks (Slices_init sizes) = map (\<lambda>c. int (length c)) sizes"
proof -
  have "getitem (Slices_init sizes) idx = Inr (map2 cum_slice idx sizes)"
    using getitem_axes_accumulate [OF assms] by (simp add: getitem_def Slices_init_def)
  moreover have "map length (starts (Slices_init sizes)) = map (\<lambda>c. length c + 1) sizes"
    by (simp add: Slices_init_def length_accumulate)
  moreover have "numblocks (Slices_init sizes) = map (\<lambda>c. int (length c)) sizes"
    by (simp add: numblocks_def Slices_init_def length_accumulate comp_def)
  ultimately show ?thesis by simp
qed

theorem Slices_getitem_cumulative_witness:
  "getitem (Slices_init [[5, 5], [4, 4, 2]]) [1, 2]
     = (Inr [\<lparr>start = 5, stop = 10\<rparr>, \<lparr>start = 8, stop = 10\<rparr>] :: unit error + slice list)
   \<and> map length (starts (Slices_init [[5, 5], [4, 4, 2]])) = [3, 4]
   \<and> numblocks (Slices_init [[5, 5], [4, 4, 2]]) = [2, 3]"
  using Slices_getitem_cumulative [of "[1, 2]" "[[5, 5], [4, 4, 2]]"]
  by (simp add: cum_slice_def eval_nat_numeral)

section \<open>Window index: shipping it to another process\<close>

text \<open>
  C6. Unpacking the packed state of a \<open>Slices\<close> index gives back an index with the same
  \<open>starts\<close>, which therefore answers every chunk coordinate as the original does; the
  packed state is the list of per-axis offset sequences itself, whatever indices are
  passed as required.
\<close>

theorem Slices_pack_unpack:
  "starts (dask_distributed_unpack (dask_distributed_pack s req)) = starts s
   \<and> getitem (dask_distributed_unpack (dask_distributed_pack s req)) idx = getitem s idx
   \<and> numblocks (dask_distributed_unpack (dask_distributed_pack s req)) = numblocks s
   \<and> dask_distributed_pack s req = starts s"
  by (simp add: dask_distributed_unpack_def dask_distributed_pack_def getitem_def numblocks_def)

end
